theory Spec2Isabelle
  imports Complex_Main "HOL-Library.Word"
begin

section \<open>JavaScript values\<close>

text \<open>
  The factory and the throwing validator inspect their arguments with \<open>typeof\<close>,
  \<open>instanceof\<close> and \<open>=== undefined\<close>, so the fields of their parameter objects are
  modelled as untyped JavaScript values.

  A JavaScript string is a sequence of 16-bit code units.  A number is an IEEE double: it is
  finite, one of the two infinities, or NaN; a finite double is represented by the rational it
  denotes (both zeros are \<open>Finite 0\<close>; they behave alike under every test made here).
  The time value of a \<open>Date\<close> is either NaN (an invalid date) or an integral number of
  milliseconds since the epoch.
\<close>

type_synonym jsstring = "16 word list"

datatype jsnum = Finite rat | PosInf | NegInf | NaN

datatype jsdate = ValidDate int | InvalidDate

datatype jsval =
    Undefined
  | Null
  | Bool bool
  | Num jsnum
  | Str jsstring
  | DateV jsdate
  | Obj "(string \<times> jsval) list"

text \<open>String literals of the source, as code units.\<close>

definition utf16 :: "string \<Rightarrow> jsstring" where
  "utf16 s = map of_char s"

text \<open>\<open>o.k\<close> on an object literal, and the optional chain \<open>o?.k\<close>.  None of the keys read
  here (\<open>code\<close>, \<open>statusCode\<close>, the fields of a product) exists on a primitive.\<close>

fun getProp :: "jsval \<Rightarrow> string \<Rightarrow> jsval" where
  "getProp (Obj fs) k = (case map_of fs k of Some v \<Rightarrow> v | None \<Rightarrow> Undefined)"
| "getProp _ k = Undefined"

fun hasOwn :: "jsval \<Rightarrow> string \<Rightarrow> bool" where
  "hasOwn (Obj fs) k = (k \<in> set (map fst fs))"
| "hasOwn _ k = False"

subsection \<open>Built-ins used by the source\<close>

text \<open>\<open>WhiteSpace\<close> and \<open>LineTerminator\<close> code units of ECMAScript: what \<open>trim\<close> strips.\<close>

definition isWhiteSpace :: "16 word \<Rightarrow> bool" where
  "isWhiteSpace c \<longleftrightarrow>
     c = 0x9 \<or> c = 0xA \<or> c = 0xB \<or> c = 0xC \<or> c = 0xD \<or> c = 0x20 \<or> c = 0xA0 \<or>
     c = 0x1680 \<or> (0x2000 \<le> c \<and> c \<le> 0x200A) \<or> c = 0x2028 \<or> c = 0x2029 \<or>
     c = 0x202F \<or> c = 0x205F \<or> c = 0x3000 \<or> c = 0xFEFF"

definition trim :: "jsstring \<Rightarrow> jsstring" where
  "trim s = rev (dropWhile isWhiteSpace (rev (dropWhile isWhiteSpace s)))"

fun Number_isFinite :: "jsnum \<Rightarrow> bool" where
  "Number_isFinite (Finite r) = True"
| "Number_isFinite _ = False"

fun Number_isNaN :: "jsnum \<Rightarrow> bool" where
  "Number_isNaN NaN = True"
| "Number_isNaN _ = False"

fun Number_isInteger :: "jsnum \<Rightarrow> bool" where
  "Number_isInteger (Finite r) = (r = of_int \<lfloor>r\<rfloor>)"
| "Number_isInteger _ = False"

text \<open>\<open>v >= 0\<close> and \<open>v < 0\<close> on numbers: every comparison with NaN is false.\<close>

fun ge0 :: "jsnum \<Rightarrow> bool" where
  "ge0 (Finite r) = (0 \<le> r)"
| "ge0 PosInf = True"
| "ge0 NegInf = False"
| "ge0 NaN = False"

fun lt0 :: "jsnum \<Rightarrow> bool" where
  "lt0 (Finite r) = (r < 0)"
| "lt0 PosInf = False"
| "lt0 NegInf = True"
| "lt0 NaN = False"

fun getTime :: "jsdate \<Rightarrow> jsnum" where
  "getTime (ValidDate t) = Finite (of_int t)"
| "getTime InvalidDate = NaN"

section \<open>The factory\<close>

text \<open>\<open>ProductProps\<close>: a field that is missing reads as \<open>Undefined\<close>.\<close>

record ProductProps =
  props_id :: jsval
  props_name :: jsval
  props_price :: jsval
  props_description :: jsval
  props_category :: jsval
  props_createdAt :: jsval
  props_updatedAt :: jsval

datatype CreateProductResult =
    Success (product: jsval)
  | Failure (errors: "string list")

subsection \<open>Validators\<close>

fun isNonEmptyString :: "jsval \<Rightarrow> bool" where
  "isNonEmptyString (Str s) = (length (trim s) > 0)"
| "isNonEmptyString _ = False"

fun isNonNegativeNumber :: "jsval \<Rightarrow> bool" where
  "isNonNegativeNumber (Num n) = (Number_isFinite n \<and> ge0 n)"
| "isNonNegativeNumber _ = False"

fun toDateOrUndefined :: "jsval \<Rightarrow> jsdate option" where
  "toDateOrUndefined (DateV d) = (if \<not> Number_isNaN (getTime d) then Some d else None)"
| "toDateOrUndefined _ = None"

fun isString :: "jsval \<Rightarrow> bool" where
  "isString (Str s) = True"
| "isString _ = False"

subsection \<open>createProduct\<close>

text \<open>
  The statements that fill \<open>errors\<close>; they are the same, line for line, in both versions of
  the factory.  Each \<open>push\<close> appends to the end of the array.
\<close>

definition collectErrors :: "ProductProps \<Rightarrow> string list" where
  "collectErrors props =
     (let errors = [];
          errors = (if \<not> isNonEmptyString (props_id props)
                    then errors @ [''id is required and must be a non-empty string'']
                    else errors);
          errors = (if \<not> isNonEmptyString (props_name props)
                    then errors @ [''name is required and must be a non-empty string'']
                    else errors);
          errors = (if \<not> isNonNegativeNumber (props_price props)
                    then errors @ [''price is required and must be a non-negative number'']
                    else errors);
          errors = (if props_description props \<noteq> Undefined \<and> \<not> isString (props_description props)
                    then errors @ [''description, if provided, must be a string'']
                    else errors);
          errors = (if props_category props \<noteq> Undefined \<and> \<not> isString (props_category props)
                    then errors @ [''category, if provided, must be a string'']
                    else errors)
      in errors)"

text \<open>
  \<open>createProduct\<close> of \<open>src/domain/product.ts\<close>.  \<open>now\<close> is the time value that
  \<open>new Date()\<close> reads from the clock.  The entity is the frozen object literal.
\<close>

definition createProduct :: "int \<Rightarrow> ProductProps \<Rightarrow> CreateProductResult" where
  "createProduct now props =
     (let errors = collectErrors props;
          createdAt = (case toDateOrUndefined (props_createdAt props) of
                         Some d \<Rightarrow> d | None \<Rightarrow> ValidDate now);
          updatedAt = (case toDateOrUndefined (props_updatedAt props) of
                         Some d \<Rightarrow> d | None \<Rightarrow> createdAt)
      in if length errors > 0 then Failure errors
         else Success (Obj [
           (''id'', props_id props),
           (''name'', props_name props),
           (''pricePence'', props_price props),
           (''description'', props_description props),
           (''updatedAt'', DateV updatedAt)]))"

text \<open>\<open>createProduct\<close> of the second version of the module (\<open>unnamed/part_000\<close>).\<close>

definition createProduct_part_000 :: "int \<Rightarrow> ProductProps \<Rightarrow> CreateProductResult" where
  "createProduct_part_000 now props =
     (let errors = collectErrors props;
          createdAt = (case toDateOrUndefined (props_createdAt props) of
                         Some d \<Rightarrow> d | None \<Rightarrow> ValidDate now);
          updatedAt = (case toDateOrUndefined (props_updatedAt props) of
                         Some d \<Rightarrow> d | None \<Rightarrow> createdAt)
      in if length errors > 0 then Failure errors
         else Success (Obj [
           (''id'', props_id props),
           (''name'', props_name props),
           (''price'', props_price props),
           (''description'', props_description props),
           (''category'', props_category props),
           (''createdAt'', DateV createdAt),
           (''updatedAt'', DateV updatedAt)]))"

text \<open>What a caller reads from a result: the error array of a failure; a success carries
  none.\<close>

fun errorsOf :: "CreateProductResult \<Rightarrow> string list" where
  "errorsOf (Failure es) = es"
| "errorsOf (Success p) = []"

fun isSuccess :: "CreateProductResult \<Rightarrow> bool" where
  "isSuccess (Success p) = True"
| "isSuccess (Failure es) = False"

subsection \<open>The validation rules, as the specification words them\<close>

text \<open>
  The five rules of the factory in the order of their enumeration, each with the condition
  under which an input satisfies it and the message reported when it does not.  These
  definitions follow the specification's wording, not the code; the theorems below compare
  them with \<open>collectErrors\<close>.
\<close>

datatype rule = RuleId | RuleName | RulePrice | RuleDescription | RuleCategory

definition allRules :: "rule list" where
  "allRules = [RuleId, RuleName, RulePrice, RuleDescription, RuleCategory]"

text \<open>A string with at least one non-whitespace character.\<close>

fun nonBlankString :: "jsval \<Rightarrow> bool" where
  "nonBlankString (Str s) = (\<exists>c\<in>set s. \<not> isWhiteSpace c)"
| "nonBlankString _ = False"

text \<open>A finite number that is at least 0.\<close>

fun finiteNonNegative :: "jsval \<Rightarrow> bool" where
  "finiteNonNegative (Num (Finite r)) = (0 \<le> r)"
| "finiteNonNegative _ = False"

text \<open>Absent, or of string type.\<close>

fun optionalString :: "jsval \<Rightarrow> bool" where
  "optionalString Undefined = True"
| "optionalString (Str s) = True"
| "optionalString _ = False"

fun satisfies :: "ProductProps \<Rightarrow> rule \<Rightarrow> bool" where
  "satisfies props RuleId = nonBlankString (props_id props)"
| "satisfies props RuleName = nonBlankString (props_name props)"
| "satisfies props RulePrice = finiteNonNegative (props_price props)"
| "satisfies props RuleDescription = optionalString (props_description props)"
| "satisfies props RuleCategory = optionalString (props_category props)"

fun ruleMessage :: "rule \<Rightarrow> string" where
  "ruleMessage RuleId = ''id is required and must be a non-empty string''"
| "ruleMessage RuleName = ''name is required and must be a non-empty string''"
| "ruleMessage RulePrice = ''price is required and must be a non-negative number''"
| "ruleMessage RuleDescription = ''description, if provided, must be a string''"
| "ruleMessage RuleCategory = ''category, if provided, must be a string''"

definition violations :: "ProductProps \<Rightarrow> rule list" where
  "violations props = filter (\<lambda>r. \<not> satisfies props r) allRules"

text \<open>A valid date: a date value whose instant is not NaN.\<close>

fun validDate :: "jsval \<Rightarrow> bool" where
  "validDate (DateV (ValidDate t)) = True"
| "validDate _ = False"

section \<open>The throwing validator\<close>

record CreateProductParams =
  params_id :: jsval
  params_name :: jsval
  params_pricePence :: jsval
  params_description :: jsval
  params_updatedAt :: jsval

text \<open>\<open>ProductError\<close>: the constructor stores the field, passes the message to \<open>Error\<close>
  and sets the name.\<close>

record ProductError =
  err_field :: string
  err_message :: string
  err_name :: string

definition new_ProductError :: "string \<Rightarrow> string \<Rightarrow> ProductError" where
  "new_ProductError field message =
     \<lparr>err_field = field, err_message = message, err_name = ''ProductError''\<rparr>"

text \<open>\<open>!v\<close> is true on the falsy values: undefined, null, false, 0, NaN and the empty
  string.\<close>

fun truthy :: "jsval \<Rightarrow> bool" where
  "truthy Undefined = False"
| "truthy Null = False"
| "truthy (Bool b) = b"
| "truthy (Num n) = (n \<noteq> Finite 0 \<and> n \<noteq> NaN)"
| "truthy (Str s) = (s \<noteq> [])"
| "truthy (DateV d) = True"
| "truthy (Obj fs) = True"

text \<open>\<open>v.trim() === ''\<close>.  The source evaluates it only behind \<open>typeof v !== 'string' ||\<close>,
  so only the first equation is ever reached.\<close>

fun trimIsEmpty :: "jsval \<Rightarrow> bool" where
  "trimIsEmpty (Str s) = (trim s = [])"
| "trimIsEmpty _ = False"

text \<open>\<open>typeof v !== 'number' || v < 0 || !Number.isInteger(v)\<close>.\<close>

fun notNonNegativeInteger :: "jsval \<Rightarrow> bool" where
  "notNonNegativeInteger (Num n) = (lt0 n \<or> \<not> Number_isInteger n)"
| "notNonNegativeInteger _ = True"

text \<open>\<open>!(v instanceof Date) || isNaN(v.getTime())\<close>.\<close>

fun notValidDate :: "jsval \<Rightarrow> bool" where
  "notValidDate (DateV d) = Number_isNaN (getTime d)"
| "notValidDate _ = True"

text \<open>\<open>validateProduct\<close>: \<open>Inl e\<close> when it throws \<open>e\<close>, \<open>Inr ()\<close> when it returns.\<close>

definition validateProduct :: "CreateProductParams \<Rightarrow> ProductError + unit" where
  "validateProduct params =
     (if \<not> truthy (params_id params) \<or> \<not> isString (params_id params)
           \<or> trimIsEmpty (params_id params)
      then Inl (new_ProductError ''id'' ''Product id must be a non-empty string.'')
      else if \<not> truthy (params_name params) \<or> \<not> isString (params_name params)
           \<or> trimIsEmpty (params_name params)
      then Inl (new_ProductError ''name'' ''Product name must be a non-empty string.'')
      else if notNonNegativeInteger (params_pricePence params)
      then Inl (new_ProductError ''pricePence''
                  ''Product pricePence must be a non-negative integer.'')
      else if \<not> truthy (params_description params) \<or> \<not> isString (params_description params)
           \<or> trimIsEmpty (params_description params)
      then Inl (new_ProductError ''description''
                  ''Product description must be a non-empty string.'')
      else if notValidDate (params_updatedAt params)
      then Inl (new_ProductError ''updatedAt'' ''updatedAt must be a valid Date object.'')
      else Inr ())"

subsection \<open>The validator's rules, as the specification words them\<close>

datatype vrule = VId | VName | VPricePence | VDescription | VUpdatedAt

text \<open>A non-negative integer.\<close>

fun nonNegativeInteger :: "jsval \<Rightarrow> bool" where
  "nonNegativeInteger (Num (Finite r)) = (0 \<le> r \<and> r \<in> \<int>)"
| "nonNegativeInteger _ = False"

text \<open>A non-empty string, read literally: a string of length at least one.\<close>

fun nonEmptyString :: "jsval \<Rightarrow> bool" where
  "nonEmptyString (Str s) = (s \<noteq> [])"
| "nonEmptyString _ = False"

fun vsatisfies :: "CreateProductParams \<Rightarrow> vrule \<Rightarrow> bool" where
  "vsatisfies params VId = nonBlankString (params_id params)"
| "vsatisfies params VName = nonBlankString (params_name params)"
| "vsatisfies params VPricePence = nonNegativeInteger (params_pricePence params)"
| "vsatisfies params VDescription = nonBlankString (params_description params)"
| "vsatisfies params VUpdatedAt = validDate (params_updatedAt params)"

fun verror :: "vrule \<Rightarrow> ProductError" where
  "verror VId = new_ProductError ''id'' ''Product id must be a non-empty string.''"
| "verror VName = new_ProductError ''name'' ''Product name must be a non-empty string.''"
| "verror VPricePence =
     new_ProductError ''pricePence'' ''Product pricePence must be a non-negative integer.''"
| "verror VDescription =
     new_ProductError ''description'' ''Product description must be a non-empty string.''"
| "verror VUpdatedAt = new_ProductError ''updatedAt'' ''updatedAt must be a valid Date object.''"

definition vrules :: "vrule list" where
  "vrules = [VId, VName, VPricePence, VDescription, VUpdatedAt]"

section \<open>The storage adapter\<close>

subsection \<open>Dates as ISO-8601 strings\<close>

text \<open>
  \<open>Date.prototype.toISOString\<close> and \<open>new Date(string)\<close> are built-ins.  They are modelled
  after ECMA-262: a time value is split into a day number and the milliseconds within the
  day, the day number into a year, month and day of the proleptic Gregorian calendar, and the
  result is printed as \<open>YYYY-MM-DDTHH:mm:ss.sssZ\<close>, the year with a sign and six digits when
  it is outside 0..9999.
\<close>

definition msPerDay :: int where
  "msPerDay = 86400000"

text \<open>Day number (days since 1970-01-01) to year, month, day.  The day number is shifted to
  count from 0000-03-01, so that a leap day is the last day of its year, and split into
  400-year, 100-year, 4-year and 1-year cycles.\<close>

definition civil_from_days :: "int \<Rightarrow> int \<times> nat \<times> nat" where
  "civil_from_days z =
     (let z' = z + 719468;
          era = z' div 146097;
          doe = z' mod 146097;
          n100 = min 3 (doe div 36524);
          d2 = doe - n100 * 36524;
          n4 = d2 div 1461;
          d3 = d2 mod 1461;
          n1 = min 3 (d3 div 365);
          doy = d3 - n1 * 365;
          y' = 400 * era + 100 * n100 + 4 * n4 + n1;
          mp = (5 * doy + 2) div 153;
          d = doy - (153 * mp + 2) div 5 + 1;
          m = (if mp < 10 then mp + 3 else mp - 9);
          y = (if m \<le> 2 then y' + 1 else y')
      in (y, nat m, nat d))"

text \<open>Year, month, day to day number (\<open>MakeDay\<close>).\<close>

definition days_from_civil :: "int \<Rightarrow> nat \<Rightarrow> nat \<Rightarrow> int" where
  "days_from_civil y m d =
     (let y' = (if m \<le> 2 then y - 1 else y);
          mp = (if m > 2 then int m - 3 else int m + 9);
          doy = (153 * mp + 2) div 5 + int d - 1
      in 365 * y' + y' div 4 - y' div 100 + y' div 400 + doy - 719468)"

text \<open>Decimal digits, as code units \<open>0x30\<close> to \<open>0x39\<close>; \<open>pad k n\<close> prints the last \<open>k\<close>
  digits of \<open>n\<close>.\<close>

definition digit :: "nat \<Rightarrow> 16 word" where
  "digit v = of_nat (48 + v)"

fun pad :: "nat \<Rightarrow> nat \<Rightarrow> jsstring" where
  "pad 0 n = []"
| "pad (Suc k) n = pad k (n div 10) @ [digit (n mod 10)]"

definition isDigit :: "16 word \<Rightarrow> bool" where
  "isDigit c \<longleftrightarrow> 0x30 \<le> c \<and> c \<le> 0x39"

definition parse_digits :: "jsstring \<Rightarrow> nat option" where
  "parse_digits s =
     (if list_all isDigit s then Some (foldl (\<lambda>a c. 10 * a + (unat c - 48)) 0 s) else None)"

definition yearString :: "int \<Rightarrow> jsstring" where
  "yearString y =
     (if 0 \<le> y \<and> y \<le> 9999 then pad 4 (nat y)
      else (if y < 0 then 0x2D else 0x2B) # pad 6 (nat \<bar>y\<bar>))"

text \<open>\<open>-MM-DDTHH:mm:ss.sssZ\<close>, for the month, the day and the milliseconds within the day.\<close>

definition timeString :: "nat \<Rightarrow> nat \<Rightarrow> nat \<Rightarrow> jsstring" where
  "timeString m d r =
     [0x2D] @ pad 2 m @ [0x2D] @ pad 2 d @ [0x54]
     @ pad 2 (r div 3600000) @ [0x3A] @ pad 2 (r div 60000 mod 60) @ [0x3A]
     @ pad 2 (r div 1000 mod 60) @ [0x2E] @ pad 3 (r mod 1000) @ [0x5A]"

definition isoString :: "int \<Rightarrow> jsstring" where
  "isoString t =
     (let (y, m, d) = civil_from_days (t div msPerDay)
      in yearString y @ timeString m d (nat (t mod msPerDay)))"

text \<open>\<open>toISOString\<close> throws a \<open>RangeError\<close> on an invalid date.\<close>

definition RangeError_invalid_time :: jsval where
  "RangeError_invalid_time =
     Obj [(''name'', Str (utf16 ''RangeError'')),
          (''message'', Str (utf16 ''Invalid time value''))]"

fun toISOString :: "jsdate \<Rightarrow> jsval + jsstring" where
  "toISOString (ValidDate t) = Inr (isoString t)"
| "toISOString InvalidDate = Inl RangeError_invalid_time"

text \<open>
  Reading a string in that format back.  \<open>isoFields\<close> recognises the two shapes that
  \<open>toISOString\<close> prints and returns year, month, day, hours, minutes, seconds and
  milliseconds; \<open>parseISO\<close> accepts them when they name a day of the calendar and a time of
  the day.
\<close>

type_synonym dateFields = "int \<times> nat \<times> nat \<times> nat \<times> nat \<times> nat \<times> nat"

definition timeFields :: "int \<Rightarrow> jsstring \<Rightarrow> dateFields option" where
  "timeFields y r =
     (if length r = 20 \<and> r ! 0 = 0x2D \<and> r ! 3 = 0x2D \<and> r ! 6 = 0x54 \<and> r ! 9 = 0x3A \<and>
         r ! 12 = 0x3A \<and> r ! 15 = 0x2E \<and> r ! 19 = 0x5A
      then (case (parse_digits (take 2 (drop 1 r)), parse_digits (take 2 (drop 4 r)),
                  parse_digits (take 2 (drop 7 r)), parse_digits (take 2 (drop 10 r)),
                  parse_digits (take 2 (drop 13 r)), parse_digits (take 3 (drop 16 r))) of
              (Some m, Some d, Some h, Some mi, Some se, Some ms) \<Rightarrow>
                Some (y, m, d, h, mi, se, ms)
            | _ \<Rightarrow> None)
      else None)"

definition isoFields :: "jsstring \<Rightarrow> dateFields option" where
  "isoFields s =
     (if length s = 24 then
        (case parse_digits (take 4 s) of
           Some y \<Rightarrow> timeFields (int y) (drop 4 s)
         | None \<Rightarrow> None)
      else if length s = 27 \<and> (s ! 0 = 0x2B \<or> s ! 0 = 0x2D) then
        (case parse_digits (take 6 (drop 1 s)) of
           Some y \<Rightarrow>
             if s ! 0 = 0x2D \<and> y = 0 then None
             else timeFields (if s ! 0 = 0x2D then - int y else int y) (drop 7 s)
         | None \<Rightarrow> None)
      else None)"

definition parseISO :: "jsstring \<Rightarrow> int option" where
  "parseISO s =
     (case isoFields s of
        None \<Rightarrow> None
      | Some (y, m, d, h, mi, se, ms) \<Rightarrow>
          if civil_from_days (days_from_civil y m d) = (y, m, d) \<and> h \<le> 23 \<and> mi \<le> 59 \<and> se \<le> 59
          then Some (days_from_civil y m d * msPerDay
                     + int (h * 3600000 + mi * 60000 + se * 1000 + ms))
          else None)"

definition TimeClip :: "int \<Rightarrow> jsdate" where
  "TimeClip t = (if \<bar>t\<bar> \<le> 8640000000000000 then ValidDate t else InvalidDate)"

text \<open>
  \<open>new Date(s)\<close> for a string \<open>s\<close>.  What the standard leaves to the implementation (every
  string that \<open>parseISO\<close> does not accept) is the parameter \<open>impl\<close>.
\<close>

definition new_Date :: "(jsstring \<Rightarrow> jsdate) \<Rightarrow> jsstring \<Rightarrow> jsdate" where
  "new_Date impl s = (case parseISO s of Some t \<Rightarrow> TimeClip t | None \<Rightarrow> impl s)"

subsection \<open>The entity and the stored document\<close>

text \<open>
  \<open>Product\<close> as \<open>src/domain/product.ts\<close> declares it.  \<open>description\<close> is declared a string;
  the factory of the same file stores \<open>props.description\<close> there, which may be undefined, so
  the field is optional here (\<open>None\<close> is undefined).
\<close>

record Product =
  p_id :: jsstring
  p_name :: jsstring
  p_pricePence :: jsnum
  p_description :: "jsstring option"
  p_updatedAt :: jsdate

record ProductDTO =
  dto_id :: jsstring
  dto_name :: jsstring
  dto_pricePence :: jsnum
  dto_description :: "jsstring option"
  dto_updatedAt :: jsstring
  dto_etag :: "jsstring option"
  dto_ts :: "jsnum option"

text \<open>\<open>toDTO\<close>: \<open>Inl e\<close> when \<open>toISOString\<close> throws \<open>e\<close>.  The parameter \<open>product\<close> of
  the source is \<open>p\<close> here and in \<open>save\<close>.\<close>

definition toDTO :: "Product \<Rightarrow> jsval + ProductDTO" where
  "toDTO p =
     (case toISOString (p_updatedAt p) of
        Inl e \<Rightarrow> Inl e
      | Inr s \<Rightarrow> Inr \<lparr>dto_id = p_id p, dto_name = p_name p,
                      dto_pricePence = p_pricePence p,
                      dto_description = p_description p,
                      dto_updatedAt = s, dto_etag = None, dto_ts = None\<rparr>)"

definition toDomain :: "(jsstring \<Rightarrow> jsdate) \<Rightarrow> ProductDTO \<Rightarrow> Product" where
  "toDomain impl dto =
     \<lparr>p_id = dto_id dto, p_name = dto_name dto, p_pricePence = dto_pricePence dto,
      p_description = dto_description dto,
      p_updatedAt = new_Date impl (dto_updatedAt dto)\<rparr>"

text \<open>
  The entity of the specification: a product whose fields satisfy the constraints of the data
  model.  The time value of a valid JavaScript date is within the range of \<open>TimeClip\<close>.
\<close>

definition isEntity :: "Product \<Rightarrow> bool" where
  "isEntity p \<longleftrightarrow>
     trim (p_id p) \<noteq> [] \<and> trim (p_name p) \<noteq> [] \<and>
     Number_isFinite (p_pricePence p) \<and> ge0 (p_pricePence p) \<and>
     (case p_updatedAt p of ValidDate t \<Rightarrow> \<bar>t\<bar> \<le> 8640000000000000 | InvalidDate \<Rightarrow> False)"

subsection \<open>The container\<close>

text \<open>
  The Cosmos container is an external collaborator.  It is modelled as a map from ids to
  stored documents, with what one call to it may do beyond that collected in a record: the
  failure it raises, if any (the container is then left unchanged); whether the response of
  an upsert carries the stored resource; and the metadata the server assigns.  Reading an
  id that is not stored yields no resource; deleting one is answered with a 404 error.
\<close>

type_synonym Container = "jsstring \<rightharpoonup> ProductDTO"

record Call =
  call_fault :: "jsval option"
  call_returnsResource :: bool
  call_etag :: jsstring
  call_ts :: jsnum

definition notFound :: jsval where
  "notFound = Obj [(''code'', Num (Finite 404)), (''message'', Str (utf16 ''NotFound''))]"

definition item_read :: "Call \<Rightarrow> Container \<Rightarrow> jsstring \<Rightarrow> jsval + ProductDTO option" where
  "item_read k c i = (case call_fault k of Some e \<Rightarrow> Inl e | None \<Rightarrow> Inr (c i))"

definition items_upsert ::
  "Call \<Rightarrow> Container \<Rightarrow> ProductDTO \<Rightarrow> Container \<times> (jsval + ProductDTO option)" where
  "items_upsert k c dto =
     (case call_fault k of
        Some e \<Rightarrow> (c, Inl e)
      | None \<Rightarrow>
          (let stored = dto\<lparr>dto_etag := Some (call_etag k), dto_ts := Some (call_ts k)\<rparr>
           in (c(dto_id dto \<mapsto> stored),
               Inr (if call_returnsResource k then Some stored else None))))"

definition item_delete :: "Call \<Rightarrow> Container \<Rightarrow> jsstring \<Rightarrow> Container \<times> (jsval + unit)" where
  "item_delete k c i =
     (case call_fault k of
        Some e \<Rightarrow> (c, Inl e)
      | None \<Rightarrow> (case c i of None \<Rightarrow> (c, Inl notFound) | Some r \<Rightarrow> (c(i := None), Inr ())))"

subsection \<open>CosmosProductRepo\<close>

text \<open>\<open>err?.code === 404 || err?.statusCode === 404\<close>.\<close>

definition is404 :: "jsval \<Rightarrow> bool" where
  "is404 err \<longleftrightarrow>
     getProp err ''code'' = Num (Finite 404) \<or> getProp err ''statusCode'' = Num (Finite 404)"

text \<open>The methods return promises: \<open>Inl e\<close> is a promise rejected with \<open>e\<close>, \<open>Inr v\<close> one
  fulfilled with \<open>v\<close>; \<open>None\<close> is \<open>null\<close>.  Each method takes the container before the call
  and, where it writes, returns the container after it.  \<open>list\<close> is left out: no property
  below is about it.\<close>

definition getById ::
  "(jsstring \<Rightarrow> jsdate) \<Rightarrow> Call \<Rightarrow> Container \<Rightarrow> jsstring \<Rightarrow> jsval + Product option" where
  "getById impl k c i =
     (case item_read k c i of
        Inr resource \<Rightarrow>
          (case resource of None \<Rightarrow> Inr None | Some r \<Rightarrow> Inr (Some (toDomain impl r)))
      | Inl err \<Rightarrow> if is404 err then Inr None else Inl err)"

definition save ::
  "(jsstring \<Rightarrow> jsdate) \<Rightarrow> Call \<Rightarrow> Container \<Rightarrow> Product \<Rightarrow> Container \<times> (jsval + Product)" where
  "save impl k c p =
     (case toDTO p of
        Inl e \<Rightarrow> (c, Inl e)
      | Inr dto \<Rightarrow>
          (case items_upsert k c dto of
             (c', Inl e) \<Rightarrow> (c', Inl e)
           | (c', Inr resource) \<Rightarrow>
               (case resource of
                  None \<Rightarrow> (c', Inr p)
                | Some r \<Rightarrow> (c', Inr (toDomain impl r)))))"

definition delete :: "Call \<Rightarrow> Container \<Rightarrow> jsstring \<Rightarrow> Container \<times> (jsval + unit)" where
  "delete k c i =
     (case item_delete k c i of
        (c', Inr u) \<Rightarrow> (c', Inr ())
      | (c', Inl err) \<Rightarrow> if is404 err then (c', Inr ()) else (c', Inl err))"

section \<open>Example inputs\<close>

text \<open>\<open>{id: "p1", name: "Widget", price: 9.99, category: "tools"}\<close>\<close>

definition ex_widget :: ProductProps where
  "ex_widget = \<lparr>props_id = Str (utf16 ''p1''), props_name = Str (utf16 ''Widget''),
     props_price = Num (Finite (999 / 100)), props_description = Undefined,
     props_category = Str (utf16 ''tools''),
     props_createdAt = Undefined, props_updatedAt = Undefined\<rparr>"

text \<open>\<open>{id: "   ", price: NaN, description: 5, category: null}\<close>: every rule is violated.\<close>

definition ex_all_bad :: ProductProps where
  "ex_all_bad = \<lparr>props_id = Str (utf16 ''   ''), props_name = Undefined,
     props_price = Num NaN, props_description = Num (Finite 5), props_category = Null,
     props_createdAt = Undefined, props_updatedAt = Undefined\<rparr>"

text \<open>A parameter object that passes \<open>validateProduct\<close>.\<close>

definition ex_params :: CreateProductParams where
  "ex_params = \<lparr>params_id = Str (utf16 ''p1''), params_name = Str (utf16 ''Widget''),
     params_pricePence = Num (Finite 999), params_description = Str (utf16 ''A widget''),
     params_updatedAt = DateV (ValidDate 0)\<rparr>"

text \<open>An entity, a call that the container serves without a failure, and a failure that is
  not a 404.\<close>

definition ex_product :: Product where
  "ex_product = \<lparr>p_id = utf16 ''p1'', p_name = utf16 ''Widget'', p_pricePence = Finite 999,
     p_description = Some (utf16 ''A widget''), p_updatedAt = ValidDate 1709210096789\<rparr>"

definition ex_call :: Call where
  "ex_call = \<lparr>call_fault = None, call_returnsResource = True, call_etag = utf16 ''e1'',
     call_ts = Finite 1709210097\<rparr>"

definition ex_serverError :: jsval where
  "ex_serverError = Obj [(''code'', Num (Finite 503))]"

section \<open>Properties of the factory\<close>

subsection \<open>The validators against the rules\<close>

lemma trim_eq_Nil: "trim s = [] \<longleftrightarrow> (\<forall>c\<in>set s. isWhiteSpace c)"
proof -
  have "trim s = [] \<longleftrightarrow> (\<forall>c\<in>set (dropWhile isWhiteSpace s). isWhiteSpace c)"
    by (simp add: trim_def)
  also have "\<dots> \<longleftrightarrow> dropWhile isWhiteSpace s = []"
  proof (cases "dropWhile isWhiteSpace s")
    case Nil
    show ?thesis unfolding Nil by simp
  next
    case (Cons x xs)
    then have "\<not> isWhiteSpace x" using hd_dropWhile[of isWhiteSpace s] by simp
    with Cons show ?thesis by auto
  qed
  also have "\<dots> \<longleftrightarrow> (\<forall>c\<in>set s. isWhiteSpace c)"
    by simp
  finally show ?thesis .
qed

lemma isNonEmptyString_iff: "isNonEmptyString v \<longleftrightarrow> nonBlankString v"
  by (cases v) (auto simp: trim_eq_Nil)

lemma finiteNonNegative_iff: "finiteNonNegative v \<longleftrightarrow> (\<exists>r. v = Num (Finite r) \<and> 0 \<le> r)"
proof (cases v)
  case (Num n)
  then show ?thesis by (cases n) simp_all
qed simp_all

lemma isNonNegativeNumber_iff: "isNonNegativeNumber v \<longleftrightarrow> finiteNonNegative v"
proof (cases v)
  case (Num n)
  then show ?thesis by (cases n) simp_all
qed simp_all

lemma optionalString_iff: "(v \<noteq> Undefined \<and> \<not> isString v) \<longleftrightarrow> \<not> optionalString v"
  by (cases v) simp_all

lemma allRules_complete: "r \<in> set allRules"
  by (cases r) (simp_all add: allRules_def)

lemma inj_ruleMessage: "inj ruleMessage"
proof (rule injI)
  fix a b assume "ruleMessage a = ruleMessage b"
  then show "a = b" by (cases a; cases b) simp_all
qed

lemma collectErrors_violations: "collectErrors props = map ruleMessage (violations props)"
  by (simp add: collectErrors_def violations_def allRules_def isNonEmptyString_iff
      isNonNegativeNumber_iff optionalString_iff)

lemma violations_Nil: "violations props = [] \<longleftrightarrow> (\<forall>r. satisfies props r)"
  using allRules_complete by (auto simp: violations_def filter_empty_conv)

lemma ruleMessage_in_collectErrors:
  "ruleMessage r \<in> set (collectErrors props) \<longleftrightarrow> \<not> satisfies props r"
  using allRules_complete[of r]
  by (auto simp: collectErrors_violations violations_def inj_eq[OF inj_ruleMessage] image_iff)

subsection \<open>The two outcomes of the factory\<close>

lemma createProduct_cases:
  "createProduct now props =
     (if collectErrors props = [] then
        Success (Obj [(''id'', props_id props), (''name'', props_name props),
          (''pricePence'', props_price props), (''description'', props_description props),
          (''updatedAt'', DateV (case toDateOrUndefined (props_updatedAt props) of
              Some d \<Rightarrow> d
            | None \<Rightarrow> (case toDateOrUndefined (props_createdAt props) of
                 Some d \<Rightarrow> d | None \<Rightarrow> ValidDate now)))])
      else Failure (collectErrors props))"
  by (simp add: createProduct_def Let_def)

lemma createProduct_part_000_cases:
  "createProduct_part_000 now props =
     (if collectErrors props = [] then
        Success (Obj [(''id'', props_id props), (''name'', props_name props),
          (''price'', props_price props), (''description'', props_description props),
          (''category'', props_category props),
          (''createdAt'', DateV (case toDateOrUndefined (props_createdAt props) of
                 Some d \<Rightarrow> d | None \<Rightarrow> ValidDate now)),
          (''updatedAt'', DateV (case toDateOrUndefined (props_updatedAt props) of
              Some d \<Rightarrow> d
            | None \<Rightarrow> (case toDateOrUndefined (props_createdAt props) of
                 Some d \<Rightarrow> d | None \<Rightarrow> ValidDate now)))])
      else Failure (collectErrors props))"
  by (simp add: createProduct_part_000_def Let_def)

lemma errorsOf_createProduct: "errorsOf (createProduct now props) = collectErrors props"
  by (simp add: createProduct_cases)

lemma errorsOf_createProduct_part_000:
  "errorsOf (createProduct_part_000 now props) = collectErrors props"
  by (simp add: createProduct_part_000_cases)

lemma createProduct_Failure:
  "collectErrors props \<noteq> [] \<Longrightarrow> createProduct now props = Failure (collectErrors props)"
  "collectErrors props \<noteq> [] \<Longrightarrow>
     createProduct_part_000 now props = Failure (collectErrors props)"
  by (simp_all add: createProduct_cases createProduct_part_000_cases)

subsection \<open>All violations are reported\<close>

text \<open>
  C2.  For every input, both versions of \<open>createProduct\<close> check all five rules: the result is
  a success exactly when every rule is satisfied; otherwise it is a failure whose error list
  holds the message of every violated rule and of no other, each once, in the order in which
  the rules are enumerated, and no entity.
\<close>

theorem createProduct_reports_every_violation:
  "(isSuccess (createProduct now props) \<longleftrightarrow> (\<forall>r. satisfies props r)) \<and>
   (isSuccess (createProduct_part_000 now props) \<longleftrightarrow> (\<forall>r. satisfies props r)) \<and>
   errorsOf (createProduct now props) = map ruleMessage (violations props) \<and>
   errorsOf (createProduct_part_000 now props) = map ruleMessage (violations props) \<and>
   (\<forall>r. ruleMessage r \<in> set (errorsOf (createProduct now props)) \<longleftrightarrow> \<not> satisfies props r) \<and>
   (\<forall>r. ruleMessage r \<in> set (errorsOf (createProduct_part_000 now props))
      \<longleftrightarrow> \<not> satisfies props r) \<and>
   distinct (map ruleMessage (violations props)) \<and>
   ((\<exists>r. \<not> satisfies props r) \<longrightarrow>
      createProduct now props = Failure (map ruleMessage (violations props)) \<and>
      createProduct_part_000 now props = Failure (map ruleMessage (violations props)))"
proof -
  have nil: "collectErrors props = [] \<longleftrightarrow> (\<forall>r. satisfies props r)"
    by (simp add: collectErrors_violations violations_Nil)
  have e1: "errorsOf (createProduct now props) = map ruleMessage (violations props)"
    by (simp add: errorsOf_createProduct collectErrors_violations)
  have e2: "errorsOf (createProduct_part_000 now props) = map ruleMessage (violations props)"
    by (simp add: errorsOf_createProduct_part_000 collectErrors_violations)
  have s1: "isSuccess (createProduct now props) \<longleftrightarrow> (\<forall>r. satisfies props r)"
    using nil by (simp add: createProduct_cases)
  have s2: "isSuccess (createProduct_part_000 now props) \<longleftrightarrow> (\<forall>r. satisfies props r)"
    using nil by (simp add: createProduct_part_000_cases)
  have m: "ruleMessage r \<in> set (map ruleMessage (violations props)) \<longleftrightarrow> \<not> satisfies props r"
    for r
    using ruleMessage_in_collectErrors[of r props] by (simp add: collectErrors_violations)
  have d: "distinct (map ruleMessage (violations props))"
    by (simp add: distinct_map violations_def allRules_def inj_on_subset[OF inj_ruleMessage])
  have f: "(\<exists>r. \<not> satisfies props r) \<longrightarrow>
      createProduct now props = Failure (map ruleMessage (violations props)) \<and>
      createProduct_part_000 now props = Failure (map ruleMessage (violations props))"
    using nil
    by (auto simp: createProduct_cases createProduct_part_000_cases collectErrors_violations)
  show ?thesis using s1 s2 e1 e2 m d f by simp
qed

theorem createProduct_reports_every_violation_witness:
  "(\<exists>r. \<not> satisfies ex_all_bad r) \<and>
   createProduct 0 ex_all_bad = Failure
     [''id is required and must be a non-empty string'',
      ''name is required and must be a non-empty string'',
      ''price is required and must be a non-negative number'',
      ''description, if provided, must be a string'',
      ''category, if provided, must be a string'']"
proof -
  have "\<not> satisfies ex_all_bad RuleName" by (simp add: ex_all_bad_def)
  then have h: "\<exists>r. \<not> satisfies ex_all_bad r" by blast
  have v: "violations ex_all_bad = allRules"
    by (simp add: violations_def allRules_def ex_all_bad_def utf16_def isWhiteSpace_def)
  show ?thesis
    using h v createProduct_reports_every_violation [of 0 ex_all_bad]
    by (simp add: allRules_def)
qed

subsection \<open>Whitespace-only identifiers and names\<close>

lemma collectErrors_blank:
  assumes "\<forall>c\<in>set s. isWhiteSpace c"
  shows "collectErrors (props\<lparr>props_id := Str s\<rparr>) = collectErrors (props\<lparr>props_id := Str []\<rparr>)"
    and "collectErrors (props\<lparr>props_name := Str s\<rparr>)
         = collectErrors (props\<lparr>props_name := Str []\<rparr>)"
proof -
  have "isNonEmptyString (Str s) = isNonEmptyString (Str [])"
    using assms by (simp add: trim_eq_Nil)
  then show "collectErrors (props\<lparr>props_id := Str s\<rparr>)
             = collectErrors (props\<lparr>props_id := Str []\<rparr>)"
    and "collectErrors (props\<lparr>props_name := Str s\<rparr>)
         = collectErrors (props\<lparr>props_name := Str []\<rparr>)"
    by (simp_all add: collectErrors_def)
qed

text \<open>
  C7.  When \<open>id\<close> (or \<open>name\<close>) is a string of whitespace characters only, both versions of
  \<open>createProduct\<close> return exactly what they return when that field is the empty string and
  the other fields are the same: a failure, with the field's message in its error list, and
  no entity.
\<close>

theorem createProduct_whitespace_like_empty:
  assumes "\<forall>c\<in>set s. isWhiteSpace c"
  shows
  "createProduct now (props\<lparr>props_id := Str s\<rparr>)
     = createProduct now (props\<lparr>props_id := Str []\<rparr>) \<and>
   createProduct now (props\<lparr>props_name := Str s\<rparr>)
     = createProduct now (props\<lparr>props_name := Str []\<rparr>) \<and>
   createProduct_part_000 now (props\<lparr>props_id := Str s\<rparr>)
     = createProduct_part_000 now (props\<lparr>props_id := Str []\<rparr>) \<and>
   createProduct_part_000 now (props\<lparr>props_name := Str s\<rparr>)
     = createProduct_part_000 now (props\<lparr>props_name := Str []\<rparr>) \<and>
   \<not> isSuccess (createProduct now (props\<lparr>props_id := Str s\<rparr>)) \<and>
   \<not> isSuccess (createProduct now (props\<lparr>props_name := Str s\<rparr>)) \<and>
   \<not> isSuccess (createProduct_part_000 now (props\<lparr>props_id := Str s\<rparr>)) \<and>
   \<not> isSuccess (createProduct_part_000 now (props\<lparr>props_name := Str s\<rparr>)) \<and>
   ''id is required and must be a non-empty string''
     \<in> set (errorsOf (createProduct now (props\<lparr>props_id := Str s\<rparr>))) \<and>
   ''name is required and must be a non-empty string''
     \<in> set (errorsOf (createProduct now (props\<lparr>props_name := Str s\<rparr>))) \<and>
   ''id is required and must be a non-empty string''
     \<in> set (errorsOf (createProduct_part_000 now (props\<lparr>props_id := Str s\<rparr>))) \<and>
   ''name is required and must be a non-empty string''
     \<in> set (errorsOf (createProduct_part_000 now (props\<lparr>props_name := Str s\<rparr>)))"
proof -
  let ?pi = "props\<lparr>props_id := Str s\<rparr>" and ?pn = "props\<lparr>props_name := Str s\<rparr>"
  let ?ei = "props\<lparr>props_id := Str []\<rparr>" and ?en = "props\<lparr>props_name := Str []\<rparr>"
  have i: "ruleMessage RuleId \<in> set (collectErrors ?pi)"
    and n: "ruleMessage RuleName \<in> set (collectErrors ?pn)"
    using assms ruleMessage_in_collectErrors[of RuleId ?pi]
      ruleMessage_in_collectErrors[of RuleName ?pn] by simp_all
  have ci: "collectErrors ?pi = collectErrors ?ei" and cn: "collectErrors ?pn = collectErrors ?en"
    using assms by (rule collectErrors_blank)+
  have nei: "collectErrors ?pi \<noteq> []" and nen: "collectErrors ?pn \<noteq> []"
    using i n by auto
  have nei': "collectErrors ?ei \<noteq> []" and nen': "collectErrors ?en \<noteq> []"
    using nei nen ci cn by simp_all
  show ?thesis
    using i n ci cn
    by (simp add: createProduct_Failure[OF nei] createProduct_Failure[OF nen]
        createProduct_Failure[OF nei'] createProduct_Failure[OF nen'])
qed

theorem createProduct_whitespace_like_empty_witness:
  "createProduct 0 (ex_widget\<lparr>props_id := Str (utf16 ''   '')\<rparr>)
     = Failure [''id is required and must be a non-empty string''] \<and>
   createProduct 0 (ex_widget\<lparr>props_id := Str []\<rparr>)
     = Failure [''id is required and must be a non-empty string'']"
proof -
  have h: "\<forall>c\<in>set (utf16 ''   ''). isWhiteSpace c"
    by (simp add: utf16_def isWhiteSpace_def)
  have e: "createProduct 0 (ex_widget\<lparr>props_id := Str []\<rparr>)
     = Failure [''id is required and must be a non-empty string'']"
    by (simp add: createProduct_def collectErrors_def ex_widget_def utf16_def trim_def
        isWhiteSpace_def)
  show ?thesis
    using h e createProduct_whitespace_like_empty [OF h, of 0 ex_widget] by simp
qed

subsection \<open>The price rule\<close>

text \<open>
  C8.  Both versions of \<open>createProduct\<close> report the price message exactly when \<open>price\<close> is not
  a finite number that is at least 0: NaN, the two infinities, every negative number and
  every value that is not a number are rejected, and every finite number that is at least 0
  passes \<open>isNonNegativeNumber\<close>.
\<close>

theorem createProduct_price_rule:
  "(''price is required and must be a non-negative number''
      \<in> set (errorsOf (createProduct now props))
      \<longleftrightarrow> \<not> (\<exists>r. props_price props = Num (Finite r) \<and> 0 \<le> r)) \<and>
   (''price is required and must be a non-negative number''
      \<in> set (errorsOf (createProduct_part_000 now props))
      \<longleftrightarrow> \<not> (\<exists>r. props_price props = Num (Finite r) \<and> 0 \<le> r)) \<and>
   (isNonNegativeNumber (props_price props)
      \<longleftrightarrow> (\<exists>r. props_price props = Num (Finite r) \<and> 0 \<le> r))"
  using ruleMessage_in_collectErrors[of RulePrice props]
  by (simp add: errorsOf_createProduct errorsOf_createProduct_part_000 finiteNonNegative_iff
      isNonNegativeNumber_iff)

theorem createProduct_price_rule_witness:
  "''price is required and must be a non-negative number''
     \<in> set (errorsOf (createProduct 0 (ex_widget\<lparr>props_price := Num PosInf\<rparr>))) \<and>
   ''price is required and must be a non-negative number''
     \<in> set (errorsOf (createProduct 0 (ex_widget\<lparr>props_price := Num NaN\<rparr>))) \<and>
   ''price is required and must be a non-negative number''
     \<in> set (errorsOf (createProduct 0 (ex_widget\<lparr>props_price := Num (Finite (- 1 / 2))\<rparr>))) \<and>
   ''price is required and must be a non-negative number''
     \<in> set (errorsOf (createProduct 0 (ex_widget\<lparr>props_price := Str (utf16 ''5'')\<rparr>))) \<and>
   ''price is required and must be a non-negative number''
     \<notin> set (errorsOf (createProduct 0 ex_widget))"
proof -
  have ok: "\<exists>r. props_price ex_widget = Num (Finite r) \<and> 0 \<le> r"
    by (rule exI[of _ "999 / 100"]) (simp add: ex_widget_def)
  show ?thesis
    using ok createProduct_price_rule [of 0 "ex_widget\<lparr>props_price := Num PosInf\<rparr>"]
      createProduct_price_rule [of 0 "ex_widget\<lparr>props_price := Num NaN\<rparr>"]
      createProduct_price_rule [of 0 "ex_widget\<lparr>props_price := Num (Finite (- 1 / 2))\<rparr>"]
      createProduct_price_rule [of 0 "ex_widget\<lparr>props_price := Str (utf16 ''5'')\<rparr>"]
      createProduct_price_rule [of 0 ex_widget]
    by simp
qed

subsection \<open>The two-error example\<close>

text \<open>
  C9.  \<open>createProduct({id: "", name: "Widget", price: -1})\<close> is a failure whose error list is
  exactly the id message followed by the price message, in both versions of the factory and
  at every time of call.
\<close>

theorem createProduct_example_two_errors:
  "createProduct now \<lparr>props_id = Str (utf16 ''''), props_name = Str (utf16 ''Widget''),
         props_price = Num (Finite (- 1)), props_description = Undefined,
         props_category = Undefined, props_createdAt = Undefined, props_updatedAt = Undefined\<rparr>
     = Failure [''id is required and must be a non-empty string'',
                ''price is required and must be a non-negative number''] \<and>
   createProduct_part_000 now \<lparr>props_id = Str (utf16 ''''), props_name = Str (utf16 ''Widget''),
         props_price = Num (Finite (- 1)), props_description = Undefined,
         props_category = Undefined, props_createdAt = Undefined, props_updatedAt = Undefined\<rparr>
     = Failure [''id is required and must be a non-empty string'',
                ''price is required and must be a non-negative number'']"
  by (simp add: createProduct_def createProduct_part_000_def collectErrors_def utf16_def
      trim_def isWhiteSpace_def)

subsection \<open>What a success carries\<close>

lemma toDateOrUndefined_Some: "toDateOrUndefined v = Some d \<Longrightarrow> validDate (DateV d)"
  by (cases v; cases d) (auto split: if_splits)

lemma validDate_default:
  "validDate (DateV (case toDateOrUndefined v of Some d \<Rightarrow> d | None \<Rightarrow> ValidDate now))"
  by (auto split: option.split dest: toDateOrUndefined_Some)

lemma validDate_default2:
  "validDate (DateV (case toDateOrUndefined w of Some d \<Rightarrow> d
     | None \<Rightarrow> (case toDateOrUndefined v of Some d \<Rightarrow> d | None \<Rightarrow> ValidDate now)))"
  by (auto split: option.split dest: toDateOrUndefined_Some)

lemma collectErrors_Nil: "collectErrors props = [] \<longleftrightarrow> (\<forall>r. satisfies props r)"
  by (simp add: collectErrors_violations violations_Nil)

text \<open>
  C1 (as amended).  Every success of the second version of \<open>createProduct\<close> carries an id
  and a name with a non-whitespace character, the input price unchanged under \<open>price\<close> (a
  finite number that is at least 0), an optional string description and category, and valid
  \<open>createdAt\<close> and \<open>updatedAt\<close> dates, \<open>createdAt\<close> being the time of the call when no
  valid date is supplied.  Every success of \<open>createProduct\<close> in \<open>src/domain/product.ts\<close>
  carries the id, the name, the price under \<open>pricePence\<close>, the optional description and a valid
  \<open>updatedAt\<close>, and has no \<open>price\<close>, \<open>category\<close> or \<open>createdAt\<close> field.  An input that
  violates a rule yields a failure, never an entity.
\<close>

theorem createProduct_entity_fields:
  "(createProduct_part_000 now props = Success e \<longrightarrow>
      nonBlankString (getProp e ''id'') \<and> nonBlankString (getProp e ''name'') \<and>
      finiteNonNegative (getProp e ''price'') \<and> getProp e ''price'' = props_price props \<and>
      optionalString (getProp e ''description'') \<and> optionalString (getProp e ''category'') \<and>
      validDate (getProp e ''createdAt'') \<and> validDate (getProp e ''updatedAt'') \<and>
      (toDateOrUndefined (props_createdAt props) = None \<longrightarrow>
         getProp e ''createdAt'' = DateV (ValidDate now))) \<and>
   (createProduct now props = Success e \<longrightarrow>
      nonBlankString (getProp e ''id'') \<and> nonBlankString (getProp e ''name'') \<and>
      finiteNonNegative (getProp e ''pricePence'') \<and>
      getProp e ''pricePence'' = props_price props \<and>
      optionalString (getProp e ''description'') \<and> validDate (getProp e ''updatedAt'') \<and>
      \<not> hasOwn e ''price'' \<and> \<not> hasOwn e ''category'' \<and> \<not> hasOwn e ''createdAt'') \<and>
   ((\<exists>r. \<not> satisfies props r) \<longrightarrow>
      createProduct now props = Failure (collectErrors props) \<and>
      createProduct_part_000 now props = Failure (collectErrors props))"
proof -
  have sat: "collectErrors props = [] \<Longrightarrow> satisfies props r" for r
    by (simp add: collectErrors_Nil)
  have a: "createProduct_part_000 now props = Success e \<longrightarrow>
      nonBlankString (getProp e ''id'') \<and> nonBlankString (getProp e ''name'') \<and>
      finiteNonNegative (getProp e ''price'') \<and> getProp e ''price'' = props_price props \<and>
      optionalString (getProp e ''description'') \<and> optionalString (getProp e ''category'') \<and>
      validDate (getProp e ''createdAt'') \<and> validDate (getProp e ''updatedAt'') \<and>
      (toDateOrUndefined (props_createdAt props) = None \<longrightarrow>
         getProp e ''createdAt'' = DateV (ValidDate now))"
  proof
    assume s: "createProduct_part_000 now props = Success e"
    then have n: "collectErrors props = []"
      by (simp add: createProduct_part_000_cases split: if_splits)
    from s n have e: "e = Obj [(''id'', props_id props), (''name'', props_name props),
          (''price'', props_price props), (''description'', props_description props),
          (''category'', props_category props),
          (''createdAt'', DateV (case toDateOrUndefined (props_createdAt props) of
                 Some d \<Rightarrow> d | None \<Rightarrow> ValidDate now)),
          (''updatedAt'', DateV (case toDateOrUndefined (props_updatedAt props) of
              Some d \<Rightarrow> d
            | None \<Rightarrow> (case toDateOrUndefined (props_createdAt props) of
                 Some d \<Rightarrow> d | None \<Rightarrow> ValidDate now)))]"
      by (simp add: createProduct_part_000_cases)
    show "nonBlankString (getProp e ''id'') \<and> nonBlankString (getProp e ''name'') \<and>
      finiteNonNegative (getProp e ''price'') \<and> getProp e ''price'' = props_price props \<and>
      optionalString (getProp e ''description'') \<and> optionalString (getProp e ''category'') \<and>
      validDate (getProp e ''createdAt'') \<and> validDate (getProp e ''updatedAt'') \<and>
      (toDateOrUndefined (props_createdAt props) = None \<longrightarrow>
         getProp e ''createdAt'' = DateV (ValidDate now))"
      unfolding e
      using sat[OF n, of RuleId] sat[OF n, of RuleName] sat[OF n, of RulePrice]
        sat[OF n, of RuleDescription] sat[OF n, of RuleCategory]
        validDate_default[where v = "props_createdAt props" and now = now]
        validDate_default2[where w = "props_updatedAt props" and v = "props_createdAt props" and now = now]
      by simp
  qed
  have b: "createProduct now props = Success e \<longrightarrow>
      nonBlankString (getProp e ''id'') \<and> nonBlankString (getProp e ''name'') \<and>
      finiteNonNegative (getProp e ''pricePence'') \<and>
      getProp e ''pricePence'' = props_price props \<and>
      optionalString (getProp e ''description'') \<and> validDate (getProp e ''updatedAt'') \<and>
      \<not> hasOwn e ''price'' \<and> \<not> hasOwn e ''category'' \<and> \<not> hasOwn e ''createdAt''"
  proof
    assume s: "createProduct now props = Success e"
    then have n: "collectErrors props = []"
      by (simp add: createProduct_cases split: if_splits)
    from s n have e: "e = Obj [(''id'', props_id props), (''name'', props_name props),
          (''pricePence'', props_price props), (''description'', props_description props),
          (''updatedAt'', DateV (case toDateOrUndefined (props_updatedAt props) of
              Some d \<Rightarrow> d
            | None \<Rightarrow> (case toDateOrUndefined (props_createdAt props) of
                 Some d \<Rightarrow> d | None \<Rightarrow> ValidDate now)))]"
      by (simp add: createProduct_cases)
    show "nonBlankString (getProp e ''id'') \<and> nonBlankString (getProp e ''name'') \<and>
      finiteNonNegative (getProp e ''pricePence'') \<and>
      getProp e ''pricePence'' = props_price props \<and>
      optionalString (getProp e ''description'') \<and> validDate (getProp e ''updatedAt'') \<and>
      \<not> hasOwn e ''price'' \<and> \<not> hasOwn e ''category'' \<and> \<not> hasOwn e ''createdAt''"
      unfolding e
      using sat[OF n, of RuleId] sat[OF n, of RuleName] sat[OF n, of RulePrice]
        sat[OF n, of RuleDescription]
        validDate_default2[where w = "props_updatedAt props" and v = "props_createdAt props" and now = now]
      by simp
  qed
  have c: "(\<exists>r. \<not> satisfies props r) \<longrightarrow>
      createProduct now props = Failure (collectErrors props) \<and>
      createProduct_part_000 now props = Failure (collectErrors props)"
    using collectErrors_Nil[of props] by (auto simp: createProduct_Failure)
  show ?thesis using a b c by blast
qed

lemma ex_widget_valid: "satisfies ex_widget r"
  by (cases r) (simp_all add: ex_widget_def utf16_def isWhiteSpace_def)

lemma ex_widget_errors: "collectErrors ex_widget = []"
  by (simp add: collectErrors_Nil ex_widget_valid)

theorem createProduct_entity_fields_witness:
  "getProp (product (createProduct_part_000 1000 ex_widget)) ''createdAt''
     = DateV (ValidDate 1000) \<and>
   finiteNonNegative (getProp (product (createProduct_part_000 1000 ex_widget)) ''price'') \<and>
   optionalString (getProp (product (createProduct_part_000 1000 ex_widget)) ''category'') \<and>
   finiteNonNegative (getProp (product (createProduct 1000 ex_widget)) ''pricePence'') \<and>
   createProduct 1000 ex_all_bad = Failure (collectErrors ex_all_bad)"
proof -
  have s1: "createProduct_part_000 1000 ex_widget
      = Success (product (createProduct_part_000 1000 ex_widget))"
    by (simp add: createProduct_part_000_cases ex_widget_errors)
  have s2: "createProduct 1000 ex_widget = Success (product (createProduct 1000 ex_widget))"
    by (simp add: createProduct_cases ex_widget_errors)
  have h: "toDateOrUndefined (props_createdAt ex_widget) = None"
    by (simp add: ex_widget_def)
  have "\<not> satisfies ex_all_bad RuleName" by (simp add: ex_all_bad_def)
  then have bad: "\<exists>r. \<not> satisfies ex_all_bad r" by blast
  show ?thesis
    using s1 s2 h bad
      createProduct_entity_fields
        [of 1000 ex_widget "product (createProduct_part_000 1000 ex_widget)"]
      createProduct_entity_fields
        [of 1000 ex_widget "product (createProduct 1000 ex_widget)"]
      createProduct_entity_fields [of 1000 ex_all_bad]
    by blast
qed

text \<open>
  The claim as stated fails on \<open>src/domain/product.ts\<close>: for
  \<open>{id: "p1", name: "Widget", price: 9.99, category: "tools"}\<close> its entity has no
  \<open>price\<close>, no \<open>category\<close> and no \<open>createdAt\<close>.
\<close>

theorem createProduct_drops_price_category_createdAt:
  "isSuccess (createProduct 1000 ex_widget) \<and>
   props_price ex_widget = Num (Finite (999 / 100)) \<and>
   props_category ex_widget = Str (utf16 ''tools'') \<and>
   getProp (product (createProduct 1000 ex_widget)) ''price'' = Undefined \<and>
   getProp (product (createProduct 1000 ex_widget)) ''category'' = Undefined \<and>
   getProp (product (createProduct 1000 ex_widget)) ''createdAt'' = Undefined \<and>
   \<not> hasOwn (product (createProduct 1000 ex_widget)) ''price'' \<and>
   \<not> hasOwn (product (createProduct 1000 ex_widget)) ''category'' \<and>
   \<not> hasOwn (product (createProduct 1000 ex_widget)) ''createdAt''"
  by (simp add: createProduct_cases ex_widget_errors) (simp add: ex_widget_def)

subsection \<open>Defaults of the timestamps\<close>

text \<open>
  C3 (as amended).  For a valid input without \<open>createdAt\<close>: when a valid \<open>updatedAt\<close> is
  supplied, the entity of the second version has \<open>createdAt\<close> equal to the time of the call
  and keeps the supplied \<open>updatedAt\<close>, and the entity of \<open>src/domain/product.ts\<close> keeps the
  supplied \<open>updatedAt\<close> and has no \<open>createdAt\<close> field; when \<open>updatedAt\<close> is not supplied
  either, the entity of the second version has \<open>createdAt\<close> equal to the time of the call and
  \<open>updatedAt\<close> equal to \<open>createdAt\<close>, and the entity of \<open>src/domain/product.ts\<close> has
  \<open>updatedAt\<close> equal to the time of the call and no \<open>createdAt\<close> field.
\<close>

theorem createProduct_timestamp_defaults:
  assumes "\<forall>r. satisfies props r" and "props_createdAt props = Undefined"
  shows
  "(props_updatedAt props = DateV (ValidDate u) \<longrightarrow>
      isSuccess (createProduct_part_000 now props) \<and>
      getProp (product (createProduct_part_000 now props)) ''createdAt'' = DateV (ValidDate now) \<and>
      getProp (product (createProduct_part_000 now props)) ''updatedAt'' = DateV (ValidDate u) \<and>
      isSuccess (createProduct now props) \<and>
      getProp (product (createProduct now props)) ''updatedAt'' = DateV (ValidDate u) \<and>
      \<not> hasOwn (product (createProduct now props)) ''createdAt'') \<and>
   (props_updatedAt props = Undefined \<longrightarrow>
      isSuccess (createProduct_part_000 now props) \<and>
      getProp (product (createProduct_part_000 now props)) ''createdAt'' = DateV (ValidDate now) \<and>
      getProp (product (createProduct_part_000 now props)) ''updatedAt''
        = getProp (product (createProduct_part_000 now props)) ''createdAt'' \<and>
      isSuccess (createProduct now props) \<and>
      getProp (product (createProduct now props)) ''updatedAt'' = DateV (ValidDate now) \<and>
      \<not> hasOwn (product (createProduct now props)) ''createdAt'')"
proof -
  have n: "collectErrors props = []"
    using assms(1) by (simp add: collectErrors_Nil)
  show ?thesis
    using assms(2) by (simp add: createProduct_cases createProduct_part_000_cases n)
qed

theorem createProduct_timestamp_defaults_witness:
  "getProp (product (createProduct_part_000 1000 (ex_widget\<lparr>props_updatedAt := DateV (ValidDate 5)\<rparr>)))
     ''createdAt'' = DateV (ValidDate 1000) \<and>
   getProp (product (createProduct_part_000 1000 (ex_widget\<lparr>props_updatedAt := DateV (ValidDate 5)\<rparr>)))
     ''updatedAt'' = DateV (ValidDate 5) \<and>
   getProp (product (createProduct 1000 (ex_widget\<lparr>props_updatedAt := DateV (ValidDate 5)\<rparr>)))
     ''updatedAt'' = DateV (ValidDate 5) \<and>
   getProp (product (createProduct_part_000 1000 ex_widget)) ''updatedAt'' = DateV (ValidDate 1000)"
proof -
  have v1: "\<forall>r. satisfies (ex_widget\<lparr>props_updatedAt := DateV (ValidDate 5)\<rparr>) r"
  proof
    fix r show "satisfies (ex_widget\<lparr>props_updatedAt := DateV (ValidDate 5)\<rparr>) r"
      using ex_widget_valid[of r] by (cases r) simp_all
  qed
  have v2: "\<forall>r. satisfies ex_widget r" by (simp add: ex_widget_valid)
  have c1: "props_createdAt (ex_widget\<lparr>props_updatedAt := DateV (ValidDate 5)\<rparr>) = Undefined"
    and c2: "props_createdAt ex_widget = Undefined"
    and u1: "props_updatedAt (ex_widget\<lparr>props_updatedAt := DateV (ValidDate 5)\<rparr>)
             = DateV (ValidDate 5)"
    and u2: "props_updatedAt ex_widget = Undefined"
    by (simp_all add: ex_widget_def)
  show ?thesis
    using u1 u2 createProduct_timestamp_defaults [OF v1 c1, of 5 1000]
      createProduct_timestamp_defaults [OF v2 c2, of 5 1000]
    by simp
qed

text \<open>
  The claim as stated fails on \<open>src/domain/product.ts\<close>: with a valid \<open>updatedAt\<close> and no
  \<open>createdAt\<close> supplied, the entity's \<open>createdAt\<close> is not the time of the call; the entity
  has no such field.
\<close>

theorem createProduct_has_no_createdAt:
  "props_createdAt (ex_widget\<lparr>props_updatedAt := DateV (ValidDate 5)\<rparr>) = Undefined \<and>
   props_updatedAt (ex_widget\<lparr>props_updatedAt := DateV (ValidDate 5)\<rparr>) = DateV (ValidDate 5) \<and>
   isSuccess (createProduct 1000 (ex_widget\<lparr>props_updatedAt := DateV (ValidDate 5)\<rparr>)) \<and>
   getProp (product (createProduct 1000 (ex_widget\<lparr>props_updatedAt := DateV (ValidDate 5)\<rparr>)))
     ''createdAt'' \<noteq> DateV (ValidDate 1000) \<and>
   getProp (product (createProduct 1000 (ex_widget\<lparr>props_updatedAt := DateV (ValidDate 5)\<rparr>)))
     ''createdAt'' = Undefined"
proof -
  have "collectErrors (ex_widget\<lparr>props_updatedAt := DateV (ValidDate 5)\<rparr>) = collectErrors ex_widget"
    by (simp add: collectErrors_def)
  then have n: "collectErrors (ex_widget\<lparr>props_updatedAt := DateV (ValidDate 5)\<rparr>) = []"
    by (simp add: ex_widget_errors)
  show ?thesis by (simp add: createProduct_cases n) (simp add: ex_widget_def)
qed

section \<open>Properties of the throwing validator\<close>

lemma blank_check_iff: "(\<not> truthy v \<or> \<not> isString v \<or> trimIsEmpty v) \<longleftrightarrow> \<not> nonBlankString v"
  by (cases v) (auto simp: trim_eq_Nil)

lemma Number_isInteger_iff: "Number_isInteger (Finite r) \<longleftrightarrow> r \<in> \<int>"
proof
  assume "Number_isInteger (Finite r)"
  then have "r = of_int \<lfloor>r\<rfloor>" by simp
  then show "r \<in> \<int>" by (metis Ints_of_int)
next
  assume "r \<in> \<int>"
  then show "Number_isInteger (Finite r)" by (auto elim: Ints_cases)
qed

lemma notNonNegativeInteger_iff: "notNonNegativeInteger v \<longleftrightarrow> \<not> nonNegativeInteger v"
proof (cases v)
  case (Num n)
  then show ?thesis
    by (cases n) (auto simp: Number_isInteger_iff simp del: Number_isInteger.simps(1))
qed simp_all

lemma notValidDate_iff: "notValidDate v \<longleftrightarrow> \<not> validDate v"
proof (cases v)
  case (DateV d)
  then show ?thesis by (cases d) simp_all
qed simp_all

lemma vrules_complete: "r \<in> set vrules"
  by (cases r) (simp_all add: vrules_def)

text \<open>
  C10 (as amended).  \<open>validateProduct\<close> checks the rules in the order id, name, pricePence,
  description, updatedAt and throws the \<open>ProductError\<close> of the first rule that is violated,
  and of that rule only.  It returns normally exactly when id, name and description are
  strings with a non-whitespace character (description is required, and is trimmed like the
  other two), pricePence is a non-negative integer and updatedAt is a valid date.  It is
  stricter than the factory: every price and every description it accepts the factory
  accepts as well.
\<close>

theorem validateProduct_fail_fast:
  "validateProduct params =
     (case find (\<lambda>r. \<not> vsatisfies params r) vrules of
        None \<Rightarrow> Inr ()
      | Some r \<Rightarrow> Inl (verror r)) \<and>
   (validateProduct params = Inr () \<longleftrightarrow> (\<forall>r. vsatisfies params r)) \<and>
   (nonNegativeInteger v \<longrightarrow> isNonNegativeNumber v) \<and>
   (nonBlankString v \<longrightarrow> optionalString v)"
proof -
  have a: "validateProduct params =
     (case find (\<lambda>r. \<not> vsatisfies params r) vrules of
        None \<Rightarrow> Inr ()
      | Some r \<Rightarrow> Inl (verror r))"
    unfolding validateProduct_def blank_check_iff notNonNegativeInteger_iff notValidDate_iff
    by (simp add: vrules_def)
  have b: "validateProduct params = Inr () \<longleftrightarrow> (\<forall>r. vsatisfies params r)"
  proof -
    have "validateProduct params = Inr () \<longleftrightarrow> find (\<lambda>r. \<not> vsatisfies params r) vrules = None"
      unfolding a by (simp split: option.split)
    also have "\<dots> \<longleftrightarrow> (\<forall>r. vsatisfies params r)"
      using vrules_complete by (auto simp: find_None_iff)
    finally show ?thesis .
  qed
  have c: "nonNegativeInteger v \<longrightarrow> isNonNegativeNumber v"
    by (cases v rule: nonNegativeInteger.cases) simp_all
  have d: "nonBlankString v \<longrightarrow> optionalString v"
    by (cases v) simp_all
  show ?thesis using a b c d by blast
qed

theorem validateProduct_fail_fast_witness:
  "validateProduct ex_params = Inr () \<and>
   validateProduct (ex_params\<lparr>params_id := Str (utf16 '' ''), params_pricePence := Num NaN\<rparr>)
     = Inl (new_ProductError ''id'' ''Product id must be a non-empty string.'') \<and>
   validateProduct (ex_params\<lparr>params_pricePence := Num (Finite (999 / 100))\<rparr>)
     = Inl (new_ProductError ''pricePence''
              ''Product pricePence must be a non-negative integer.'')"
proof -
  have ok: "\<forall>r. vsatisfies ex_params r"
  proof
    fix r show "vsatisfies ex_params r"
      by (cases r) (simp_all add: ex_params_def utf16_def isWhiteSpace_def)
  qed
  have f1: "find (\<lambda>r. \<not> vsatisfies
        (ex_params\<lparr>params_id := Str (utf16 '' ''), params_pricePence := Num NaN\<rparr>) r) vrules
      = Some VId"
    by (simp add: vrules_def utf16_def isWhiteSpace_def)
  have f2: "find (\<lambda>r. \<not> vsatisfies
        (ex_params\<lparr>params_pricePence := Num (Finite (999 / 100))\<rparr>) r) vrules
      = Some VPricePence"
  proof -
    have "\<lfloor>999 / 100 :: rat\<rfloor> = 9" by (rule floor_unique) simp_all
    then have "\<not> Number_isInteger (Finite (999 / 100))" by simp
    then have "(999 / 100 :: rat) \<notin> \<int>" by (simp only: Number_isInteger_iff not_False_eq_True)
    then show ?thesis
      by (simp add: vrules_def ex_params_def utf16_def isWhiteSpace_def)
  qed
  show ?thesis
    using ok f1 f2 validateProduct_fail_fast [of ex_params]
      validateProduct_fail_fast
        [of "ex_params\<lparr>params_id := Str (utf16 '' ''), params_pricePence := Num NaN\<rparr>"]
      validateProduct_fail_fast
        [of "ex_params\<lparr>params_pricePence := Num (Finite (999 / 100))\<rparr>"]
    by (simp add: vrules_def)
qed

text \<open>
  The claim as stated asks of the description only that it is a non-empty string.  The
  description \<open>"   "\<close> is one, and every other rule is satisfied, yet \<open>validateProduct\<close>
  throws the description error.
\<close>

theorem validateProduct_rejects_blank_description:
  "nonBlankString (params_id (ex_params\<lparr>params_description := Str (utf16 ''   '')\<rparr>)) \<and>
   nonBlankString (params_name (ex_params\<lparr>params_description := Str (utf16 ''   '')\<rparr>)) \<and>
   nonNegativeInteger (params_pricePence (ex_params\<lparr>params_description := Str (utf16 ''   '')\<rparr>)) \<and>
   nonEmptyString (params_description (ex_params\<lparr>params_description := Str (utf16 ''   '')\<rparr>)) \<and>
   validDate (params_updatedAt (ex_params\<lparr>params_description := Str (utf16 ''   '')\<rparr>)) \<and>
   validateProduct (ex_params\<lparr>params_description := Str (utf16 ''   '')\<rparr>)
     = Inl (new_ProductError ''description''
              ''Product description must be a non-empty string.'')"
  by (simp add: ex_params_def validateProduct_def utf16_def trim_def isWhiteSpace_def)

section \<open>Properties of the storage adapter\<close>

subsection \<open>Printing a date and reading it back\<close>

lemma length_pad [simp]: "length (pad k n) = k"
  by (induction k arbitrary: n) simp_all

lemma digit_unat: "v < 10 \<Longrightarrow> unat (digit v) = 48 + v"
  unfolding digit_def by (rule of_nat_inverse[OF refl]) simp

lemma digit_isDigit: "v < 10 \<Longrightarrow> isDigit (digit v)"
  unfolding isDigit_def by (simp add: word_le_nat_alt digit_unat)

lemma list_all_pad: "list_all isDigit (pad k n)"
  by (induction k arbitrary: n) (simp_all add: digit_isDigit)

lemma foldl_pad:
  "n < 10 ^ k \<Longrightarrow> foldl (\<lambda>a c. 10 * a + (unat c - 48)) 0 (pad k n) = n"
proof (induction k arbitrary: n)
  case 0
  then show ?case by simp
next
  case (Suc k)
  have "n div 10 < 10 ^ k" using Suc.prems by (simp add: less_mult_imp_div_less)
  then have "foldl (\<lambda>a c. 10 * a + (unat c - 48)) 0 (pad k (n div 10)) = n div 10"
    by (rule Suc.IH)
  then show ?case by (simp add: digit_unat)
qed

lemma parse_digits_pad: "n < 10 ^ k \<Longrightarrow> parse_digits (pad k n) = Some n"
  by (simp add: parse_digits_def list_all_pad foldl_pad)

lemma year_decompose:
  fixes doe :: int
  assumes "0 \<le> doe" "doe < 146097"
  defines "n100 \<equiv> min 3 (doe div 36524)"
  defines "d2 \<equiv> doe - n100 * 36524"
  defines "n4 \<equiv> d2 div 1461"
  defines "d3 \<equiv> d2 mod 1461"
  defines "n1 \<equiv> min 3 (d3 div 365)"
  defines "doy \<equiv> d3 - n1 * 365"
  shows "0 \<le> n100 \<and> n100 \<le> 3 \<and> 0 \<le> n4 \<and> n4 \<le> 24 \<and> 0 \<le> n1 \<and> n1 \<le> 3 \<and>
         0 \<le> doy \<and> doy \<le> 365 \<and>
         doe = 36524 * n100 + 1461 * n4 + 365 * n1 + doy"
proof -
  have a: "0 \<le> n100" "n100 \<le> 3" using assms(1) by (simp_all add: n100_def)
  have b: "0 \<le> d2" "d2 \<le> 36524" using assms(1,2) unfolding d2_def n100_def by auto
  have c: "0 \<le> n4" "n4 \<le> 24" using b unfolding n4_def by auto
  have d: "0 \<le> d3" "d3 < 1461" unfolding d3_def by auto
  have e: "0 \<le> n1" "n1 \<le> 3" using d by (simp_all add: n1_def)
  have f: "0 \<le> doy" "doy \<le> 365" using d unfolding doy_def n1_def by auto
  have g: "d2 = 1461 * n4 + d3" unfolding n4_def d3_def by simp
  have "doe = 36524 * n100 + 1461 * n4 + 365 * n1 + doy"
    using g unfolding doy_def d2_def by simp
  with a c e f show ?thesis by simp
qed

lemma month_day:
  fixes doy :: int
  assumes "0 \<le> doy" "doy \<le> 365"
  defines "mp \<equiv> (5 * doy + 2) div 153"
  defines "d \<equiv> doy - (153 * mp + 2) div 5 + 1"
  shows "0 \<le> mp \<and> mp \<le> 11 \<and> 1 \<le> d \<and> d \<le> 31"
  using assms(1,2) unfolding d_def mp_def by auto

lemma year_days:
  fixes era n100 n4 n1 :: int
  assumes "0 \<le> n100" "n100 \<le> 3" "0 \<le> n4" "n4 \<le> 24" "0 \<le> n1" "n1 \<le> 3"
  defines "y \<equiv> 400 * era + 100 * n100 + 4 * n4 + n1"
  shows "365 * y + y div 4 - y div 100 + y div 400
         = 146097 * era + 36524 * n100 + 1461 * n4 + 365 * n1"
proof -
  have "y div 400 = era" unfolding y_def using assms(1-6) by auto
  moreover have "y div 100 = 4 * era + n100" unfolding y_def using assms(1-6) by auto
  moreover have "y div 4 = 100 * era + 25 * n100 + n4" unfolding y_def using assms(1-6) by auto
  ultimately show ?thesis unfolding y_def by simp
qed

lemma civil_roundtrip:
  assumes "civil_from_days z = (y, m, d)"
  shows "days_from_civil y m d = z \<and> 1 \<le> m \<and> m \<le> 12 \<and> 1 \<le> d \<and> d \<le> 31 \<and>
         (\<bar>z\<bar> \<le> 100000000 \<longrightarrow> \<bar>y\<bar> < 1000000)"
proof -
  define z' where "z' = z + 719468"
  define era where "era = z' div 146097"
  define doe where "doe = z' mod 146097"
  define n100 where "n100 = min 3 (doe div 36524)"
  define d2 where "d2 = doe - n100 * 36524"
  define n4 where "n4 = d2 div 1461"
  define d3 where "d3 = d2 mod 1461"
  define n1 where "n1 = min 3 (d3 div 365)"
  define doy where "doy = d3 - n1 * 365"
  define y' where "y' = 400 * era + 100 * n100 + 4 * n4 + n1"
  define mp where "mp = (5 * doy + 2) div 153"
  define dd where "dd = doy - (153 * mp + 2) div 5 + 1"
  define mm where "mm = (if mp < 10 then mp + 3 else mp - 9)"
  have doe: "0 \<le> doe" "doe < 146097" by (simp_all add: doe_def)
  note dec = year_decompose[OF doe, folded n100_def, folded d2_def, folded n4_def d3_def,
      folded n1_def, folded doy_def]
  have md: "0 \<le> mp \<and> mp \<le> 11 \<and> 1 \<le> dd \<and> dd \<le> 31"
    using month_day[of doy] dec unfolding mp_def dd_def by simp
  have yd: "365 * y' + y' div 4 - y' div 100 + y' div 400
         = 146097 * era + 36524 * n100 + 1461 * n4 + 365 * n1"
    unfolding y'_def using dec by (intro year_days) simp_all
  have zz: "z' = 146097 * era + doe" by (simp add: era_def doe_def)
  have res: "y = (if mm \<le> 2 then y' + 1 else y')" "m = nat mm" "d = nat dd"
    using assms
    unfolding civil_from_days_def Let_def z'_def[symmetric] era_def[symmetric] doe_def[symmetric]
      n100_def[symmetric] d2_def[symmetric] n4_def[symmetric] d3_def[symmetric]
      n1_def[symmetric] doy_def[symmetric] y'_def[symmetric] mp_def[symmetric]
      dd_def[symmetric] mm_def[symmetric]
    by simp_all
  have mmb: "1 \<le> mm" "mm \<le> 12" using md unfolding mm_def by auto
  have mback: "(if m > 2 then int m - 3 else int m + 9) = mp"
    using md mmb unfolding res mm_def by auto
  have yback: "(if m \<le> 2 then y - 1 else y) = y'"
    using mmb unfolding res by auto
  have doyback: "(153 * mp + 2) div 5 + int d - 1 = doy"
    using md unfolding res dd_def by simp
  have "days_from_civil y m d = z"
    unfolding days_from_civil_def Let_def mback yback doyback
    using yd zz dec by (simp add: z'_def)
  moreover have "1 \<le> m \<and> m \<le> 12 \<and> 1 \<le> d \<and> d \<le> 31"
    using mmb md unfolding res by auto
  moreover have "\<bar>z\<bar> \<le> 100000000 \<longrightarrow> \<bar>y\<bar> < 1000000"
  proof
    assume "\<bar>z\<bar> \<le> 100000000"
    then have "- 1000 \<le> era \<and> era \<le> 1000" unfolding era_def z'_def by auto
    then have "\<bar>y'\<bar> < 999999" unfolding y'_def using dec by auto
    then show "\<bar>y\<bar> < 1000000" unfolding res by auto
  qed
  ultimately show ?thesis by simp
qed

lemma time_of_day:
  fixes r :: nat
  assumes "r < 86400000"
  shows "r div 3600000 \<le> 23 \<and> r div 60000 mod 60 \<le> 59 \<and> r div 1000 mod 60 \<le> 59 \<and>
         r mod 1000 < 1000 \<and>
         r div 3600000 * 3600000 + r div 60000 mod 60 * 60000 + r div 1000 mod 60 * 1000
           + r mod 1000 = r"
proof -
  define b where "b = r div 1000"
  have h: "r div 3600000 = b div 60 div 60" and mi: "r div 60000 = b div 60"
    by (simp_all add: b_def div_mult2_eq)
  have bb: "b < 86400" using assms unfolding b_def by auto
  define q where "q = b div 60"
  define a where "a = q div 60"
  define c where "c = q mod 60"
  define e where "e = b mod 60"
  have q1: "a * 60 + c = q" unfolding a_def c_def by simp
  have q2: "q * 60 + e = b" unfolding q_def e_def by simp
  have "a * 3600000 + c * 60000 + e * 1000 = ((a * 60 + c) * 60 + e) * 1000"
    by simp
  then have "a * 3600000 + c * 60000 + e * 1000 = b * 1000"
    unfolding q1 q2 .
  then have s: "b div 60 div 60 * 3600000 + b div 60 mod 60 * 60000 + b mod 60 * 1000 = b * 1000"
    unfolding a_def c_def e_def q_def .
  have "r = b * 1000 + r mod 1000" unfolding b_def by simp
  then have sum: "b div 60 div 60 * 3600000 + b div 60 mod 60 * 60000 + b mod 60 * 1000
      + r mod 1000 = r"
    using s by simp
  have "b div 60 div 60 \<le> 23" using bb by auto
  moreover have "b div 60 mod 60 \<le> 59" "b mod 60 \<le> 59"
    using mod_less_divisor[of 60 "b div 60"] mod_less_divisor[of 60 b] by linarith+
  ultimately show ?thesis unfolding h mi b_def[symmetric] using sum by simp
qed

lemma timeFields_timeString:
  assumes "m < 100" "d < 100" "r < 86400000"
  shows "timeFields y (timeString m d r)
         = Some (y, m, d, r div 3600000, r div 60000 mod 60, r div 1000 mod 60, r mod 1000)"
proof -
  have b: "r div 3600000 < 10 ^ 2" "r div 60000 mod 60 < 10 ^ 2" "r div 1000 mod 60 < 10 ^ 2"
    "r mod 1000 < 10 ^ 3" "m < 10 ^ 2" "d < 10 ^ 2"
    using assms time_of_day[OF assms(3)] by simp_all
  show ?thesis
    unfolding timeFields_def timeString_def
    by (simp add: nth_append parse_digits_pad[OF b(1)] parse_digits_pad[OF b(2)]
        parse_digits_pad[OF b(3)] parse_digits_pad[OF b(4)] parse_digits_pad[OF b(5)]
        parse_digits_pad[OF b(6)])
qed

lemma length_timeString [simp]: "length (timeString m d r) = 20"
  by (simp add: timeString_def)

lemma isoFields_yearString:
  assumes "\<bar>y\<bar> < 1000000" "length ts = 20"
  shows "isoFields (yearString y @ ts) = timeFields y ts"
proof (cases "0 \<le> y \<and> y \<le> 9999")
  case True
  then have "nat y < 10 ^ 4" by auto
  then have "parse_digits (pad 4 (nat y)) = Some (nat y)" by (rule parse_digits_pad)
  then show ?thesis using True assms(2) by (simp add: isoFields_def yearString_def)
next
  case False
  have "nat \<bar>y\<bar> < 10 ^ 6" using assms(1) by simp
  then have p: "parse_digits (pad 6 (nat \<bar>y\<bar>)) = Some (nat \<bar>y\<bar>)" by (rule parse_digits_pad)
  show ?thesis
  proof (cases "y < 0")
    case True
    then show ?thesis using False assms(2) p by (simp add: isoFields_def yearString_def)
  next
    case ge: False
    then show ?thesis using False assms(2) p by (simp add: isoFields_def yearString_def)
  qed
qed

lemma parseISO_isoString:
  assumes "\<bar>t\<bar> \<le> 8640000000000000"
  shows "parseISO (isoString t) = Some t"
proof -
  obtain y m d where c: "civil_from_days (t div msPerDay) = (y, m, d)"
    by (metis prod_cases3)
  have zb: "\<bar>t div msPerDay\<bar> \<le> 100000000" using assms unfolding msPerDay_def by auto
  note rt = civil_roundtrip[OF c]
  have yb: "\<bar>y\<bar> < 1000000" using rt zb by simp
  define r where "r = nat (t mod msPerDay)"
  have rb: "r < 86400000" unfolding r_def msPerDay_def by simp
  have iso: "isoString t = yearString y @ timeString m d r"
    by (simp add: isoString_def c r_def)
  have f: "isoFields (isoString t)
      = Some (y, m, d, r div 3600000, r div 60000 mod 60, r div 1000 mod 60, r mod 1000)"
    unfolding iso using rt by (simp add: isoFields_yearString[OF yb] timeFields_timeString[OF _ _ rb])
  have legal: "civil_from_days (days_from_civil y m d) = (y, m, d)" using rt c by simp
  note tod = time_of_day[OF rb]
  have "t = t div msPerDay * msPerDay + int r" unfolding r_def msPerDay_def by simp
  then have val: "days_from_civil y m d * msPerDay
      + int (r div 3600000 * 3600000 + r div 60000 mod 60 * 60000 + r div 1000 mod 60 * 1000
             + r mod 1000) = t"
    using rt tod by simp
  show ?thesis unfolding parseISO_def f using legal tod val by simp
qed

lemma new_Date_isoString:
  "\<bar>t\<bar> \<le> 8640000000000000 \<Longrightarrow> new_Date impl (isoString t) = ValidDate t"
  by (simp add: new_Date_def parseISO_isoString TimeClip_def)

subsection \<open>Evaluating the example\<close>

lemma pad_numeral:
  "pad (numeral v) n = pad (pred_numeral v) (n div 10) @ [digit (n mod 10)]"
  unfolding numeral_eq_Suc[of v] by (rule pad.simps)

lemma ex_civil: "civil_from_days 19782 = (2024, 2, 29)"
  unfolding civil_from_days_def Let_def by simp

lemma ex_day: "(1709210096789 :: int) div msPerDay = 19782"
  and ex_ms: "nat (1709210096789 mod msPerDay) = 45296789"
  by (simp_all add: msPerDay_def)

lemma ex_time: "timeString 2 29 45296789 = utf16 ''-02-29T12:34:56.789Z''"
  by (simp add: timeString_def pad_numeral digit_def utf16_def)

lemma ex_year: "yearString 2024 = utf16 ''2024''"
  by (simp add: yearString_def pad_numeral digit_def utf16_def)

lemma ex_iso: "isoString 1709210096789 = utf16 ''2024-02-29T12:34:56.789Z''"
  by (simp add: isoString_def ex_day ex_ms ex_civil ex_time ex_year) (simp add: utf16_def)

lemma ex_product_entity: "isEntity ex_product"
  by (simp add: isEntity_def ex_product_def utf16_def trim_def isWhiteSpace_def)

subsection \<open>The round trip through the stored document\<close>

lemma toDomain_toDTO:
  assumes "p_updatedAt p = ValidDate t" "\<bar>t\<bar> \<le> 8640000000000000"
  shows "toDTO p = Inr \<lparr>dto_id = p_id p, dto_name = p_name p, dto_pricePence = p_pricePence p,
            dto_description = p_description p, dto_updatedAt = isoString t,
            dto_etag = None, dto_ts = None\<rparr>"
    and "toDomain impl (\<lparr>dto_id = p_id p, dto_name = p_name p, dto_pricePence = p_pricePence p,
            dto_description = p_description p, dto_updatedAt = isoString t,
            dto_etag = e, dto_ts = s\<rparr>) = p"
  using assms by (simp_all add: toDTO_def toDomain_def new_Date_isoString)

text \<open>A product whose date is invalid is not stored: \<open>toISOString\<close> throws inside \<open>toDTO\<close>,
  before the container is reached.\<close>

lemma save_invalid_date:
  "p_updatedAt p = InvalidDate \<Longrightarrow> save impl k c p = (c, Inl RangeError_invalid_time)"
  by (simp add: save_def toDTO_def)

lemma isEntity_date:
  "isEntity p \<Longrightarrow> \<exists>t. p_updatedAt p = ValidDate t \<and> \<bar>t\<bar> \<le> 8640000000000000"
  by (cases "p_updatedAt p") (simp_all add: isEntity_def)

text \<open>
  C4.  For every entity \<open>p\<close>, \<open>toDTO\<close> succeeds and \<open>toDomain\<close> of its result is \<open>p\<close>: the
  \<open>updatedAt\<close> date survives being printed by \<open>toISOString\<close> and read back by
  \<open>new Date\<close>, whatever the implementation does on other strings.  When the container
  serves both calls, \<open>save(p)\<close> returns \<open>p\<close>, whether or not the response of the upsert
  carries the resource and whatever metadata the server adds to it, and a \<open>getById(p.id)\<close>
  that follows returns \<open>p\<close>.
\<close>

theorem save_getById_roundtrip:
  assumes "isEntity p" and "call_fault k1 = None" and "call_fault k2 = None"
  shows "(\<exists>dto. toDTO p = Inr dto \<and> toDomain impl dto = p) \<and>
         snd (save impl k1 c p) = Inr p \<and>
         getById impl k2 (fst (save impl k1 c p)) (p_id p) = Inr (Some p)"
proof -
  obtain t where t: "p_updatedAt p = ValidDate t" "\<bar>t\<bar> \<le> 8640000000000000"
    using isEntity_date[OF assms(1)] by blast
  note td = toDomain_toDTO[OF t]
  have a: "\<exists>dto. toDTO p = Inr dto \<and> toDomain impl dto = p"
    using td(1) td(2)[of impl None None] by simp
  have s: "save impl k1 c p =
      (c(p_id p \<mapsto> \<lparr>dto_id = p_id p, dto_name = p_name p, dto_pricePence = p_pricePence p,
            dto_description = p_description p, dto_updatedAt = isoString t,
            dto_etag = Some (call_etag k1), dto_ts = Some (call_ts k1)\<rparr>), Inr p)"
    using assms(2) td(2)[of impl "Some (call_etag k1)" "Some (call_ts k1)"]
    by (simp add: save_def td(1) items_upsert_def Let_def)
  have g: "getById impl k2 (fst (save impl k1 c p)) (p_id p) = Inr (Some p)"
    using assms(3) td(2)[of impl "Some (call_etag k1)" "Some (call_ts k1)"]
    by (simp add: s getById_def item_read_def)
  show ?thesis using a s g by simp
qed

theorem save_getById_roundtrip_witness:
  "toDTO ex_product =
     Inr \<lparr>dto_id = utf16 ''p1'', dto_name = utf16 ''Widget'', dto_pricePence = Finite 999,
          dto_description = Some (utf16 ''A widget''),
          dto_updatedAt = utf16 ''2024-02-29T12:34:56.789Z'', dto_etag = None, dto_ts = None\<rparr> \<and>
   snd (save (\<lambda>s. InvalidDate) ex_call Map.empty ex_product) = Inr ex_product \<and>
   getById (\<lambda>s. InvalidDate) ex_call
     (fst (save (\<lambda>s. InvalidDate) ex_call Map.empty ex_product)) (utf16 ''p1'')
     = Inr (Some ex_product)"
proof -
  have f: "call_fault ex_call = None" by (simp add: ex_call_def)
  have d: "toDTO ex_product =
     Inr \<lparr>dto_id = utf16 ''p1'', dto_name = utf16 ''Widget'', dto_pricePence = Finite 999,
          dto_description = Some (utf16 ''A widget''),
          dto_updatedAt = utf16 ''2024-02-29T12:34:56.789Z'', dto_etag = None, dto_ts = None\<rparr>"
    by (simp add: toDTO_def ex_product_def ex_iso)
  have i: "p_id ex_product = utf16 ''p1''" by (simp add: ex_product_def)
  show ?thesis
    using d i save_getById_roundtrip [OF ex_product_entity f f, of "\<lambda>s. InvalidDate" Map.empty]
    by simp
qed

subsection \<open>Reading an id that is not there\<close>

text \<open>
  C5.  \<open>getById\<close> never fails for "not found": when the container raises an error whose
  \<open>code\<close> or \<open>statusCode\<close> is 404, and when it answers without a resource, \<open>getById\<close> returns
  \<open>null\<close>; every other failure of the container is the failure of \<open>getById\<close>, unchanged,
  and \<open>getById\<close> fails in no other case.
\<close>

theorem getById_not_found_is_null:
  "(call_fault k = Some e \<and> is404 e \<longrightarrow> getById impl k c i = Inr None) \<and>
   (call_fault k = Some e \<and> \<not> is404 e \<longrightarrow> getById impl k c i = Inl e) \<and>
   (call_fault k = None \<and> c i = None \<longrightarrow> getById impl k c i = Inr None) \<and>
   (getById impl k c i = Inl e \<longrightarrow> call_fault k = Some e \<and> \<not> is404 e)"
  by (auto simp: getById_def item_read_def split: option.splits if_splits)

theorem getById_not_found_is_null_witness:
  "getById (\<lambda>s. InvalidDate) (ex_call\<lparr>call_fault := Some notFound\<rparr>) Map.empty (utf16 ''p1'')
     = Inr None \<and>
   getById (\<lambda>s. InvalidDate) (ex_call\<lparr>call_fault := Some ex_serverError\<rparr>) Map.empty
     (utf16 ''p1'') = Inl ex_serverError \<and>
   getById (\<lambda>s. InvalidDate) ex_call Map.empty (utf16 ''p1'') = Inr None"
proof -
  have a: "is404 notFound" by (simp add: is404_def notFound_def)
  have b: "\<not> is404 ex_serverError" by (simp add: is404_def ex_serverError_def)
  have f: "call_fault ex_call = None" by (simp add: ex_call_def)
  have k1: "call_fault (ex_call\<lparr>call_fault := Some notFound\<rparr>) = Some notFound"
    and k2: "call_fault (ex_call\<lparr>call_fault := Some ex_serverError\<rparr>) = Some ex_serverError"
    by simp_all
  have r1: "getById (\<lambda>s. InvalidDate) (ex_call\<lparr>call_fault := Some notFound\<rparr>) Map.empty
      (utf16 ''p1'') = Inr None"
    using getById_not_found_is_null
        [of "ex_call\<lparr>call_fault := Some notFound\<rparr>" notFound "\<lambda>s. InvalidDate" Map.empty
          "utf16 ''p1''"] k1 a
    by blast
  have r2: "getById (\<lambda>s. InvalidDate) (ex_call\<lparr>call_fault := Some ex_serverError\<rparr>) Map.empty
      (utf16 ''p1'') = Inl ex_serverError"
    using getById_not_found_is_null
        [of "ex_call\<lparr>call_fault := Some ex_serverError\<rparr>" ex_serverError "\<lambda>s. InvalidDate"
          Map.empty "utf16 ''p1''"] k2 b
    by blast
  have e: "(Map.empty :: Container) (utf16 ''p1'') = None" by simp
  have r3: "getById (\<lambda>s. InvalidDate) ex_call Map.empty (utf16 ''p1'') = Inr None"
    using getById_not_found_is_null
        [of ex_call ex_serverError "\<lambda>s. InvalidDate" Map.empty "utf16 ''p1''"] f e
    by blast
  show ?thesis using r1 r2 r3 by blast
qed

subsection \<open>Deleting\<close>

text \<open>
  C6.  \<open>delete\<close> is idempotent.  Deleting an id that is not stored succeeds and leaves the
  container as it was; after a \<open>delete(id)\<close> that the container serves the id is not stored,
  a second \<open>delete(id)\<close> succeeds and changes nothing, and \<open>getById(id)\<close> returns \<open>null\<close>.  A
  404 raised by the container is swallowed; every other failure of the container is the
  failure of \<open>delete\<close>, unchanged.
\<close>

theorem delete_idempotent:
  "(call_fault k = None \<and> c i = None \<longrightarrow> delete k c i = (c, Inr ())) \<and>
   (call_fault k = None \<longrightarrow>
      snd (delete k c i) = Inr () \<and> fst (delete k c i) = c(i := None)) \<and>
   (call_fault k = None \<and> call_fault k' = None \<longrightarrow>
      delete k' (fst (delete k c i)) i = (fst (delete k c i), Inr ()) \<and>
      getById impl k' (fst (delete k c i)) i = Inr None) \<and>
   (call_fault k = Some e \<and> is404 e \<longrightarrow> delete k c i = (c, Inr ())) \<and>
   (call_fault k = Some e \<and> \<not> is404 e \<longrightarrow> delete k c i = (c, Inl e))"
proof -
  have nf: "is404 notFound" by (simp add: is404_def notFound_def)
  have d: "call_fault k = None \<Longrightarrow> delete k c i = (c(i := None), Inr ())" for k c
  proof (cases "c i")
    case None
    assume "call_fault k = None"
    moreover have "c(i := None) = c" using None by auto
    ultimately show ?thesis using None nf by (simp add: delete_def item_delete_def)
  next
    case (Some r)
    assume "call_fault k = None"
    then show ?thesis using Some by (simp add: delete_def item_delete_def)
  qed
  have 1: "call_fault k = None \<and> c i = None \<longrightarrow> delete k c i = (c, Inr ())"
    using nf by (simp add: delete_def item_delete_def)
  have 2: "call_fault k = None \<longrightarrow>
      snd (delete k c i) = Inr () \<and> fst (delete k c i) = c(i := None)"
    using d[of k c] by simp
  have 3: "call_fault k = None \<and> call_fault k' = None \<longrightarrow>
      delete k' (fst (delete k c i)) i = (fst (delete k c i), Inr ()) \<and>
      getById impl k' (fst (delete k c i)) i = Inr None"
    using d[of k c] d[of k' "c(i := None)"] by (auto simp: getById_def item_read_def)
  have 4: "call_fault k = Some e \<and> is404 e \<longrightarrow> delete k c i = (c, Inr ())"
    by (simp add: delete_def item_delete_def)
  have 5: "call_fault k = Some e \<and> \<not> is404 e \<longrightarrow> delete k c i = (c, Inl e)"
    by (simp add: delete_def item_delete_def)
  show ?thesis using 1 2 3 4 5 by blast
qed

theorem delete_idempotent_witness:
  "delete ex_call Map.empty (utf16 ''p1'') = (Map.empty, Inr ()) \<and>
   delete ex_call (fst (delete ex_call Map.empty (utf16 ''p1''))) (utf16 ''p1'')
     = (Map.empty, Inr ()) \<and>
   getById (\<lambda>s. InvalidDate) ex_call (fst (delete ex_call Map.empty (utf16 ''p1'')))
     (utf16 ''p1'') = Inr None \<and>
   delete (ex_call\<lparr>call_fault := Some ex_serverError\<rparr>) Map.empty (utf16 ''p1'')
     = (Map.empty, Inl ex_serverError)"
proof -
  have b: "\<not> is404 ex_serverError" by (simp add: is404_def ex_serverError_def)
  have f: "call_fault ex_call = None" by (simp add: ex_call_def)
  have g: "getById (\<lambda>s. InvalidDate) ex_call Map.empty (utf16 ''p1'') = Inr None"
    by (simp add: getById_def item_read_def f)
  show ?thesis
    using b f g
      delete_idempotent [of ex_call Map.empty "utf16 ''p1''" ex_call "\<lambda>s. InvalidDate"
        ex_serverError]
      delete_idempotent [of "ex_call\<lparr>call_fault := Some ex_serverError\<rparr>" Map.empty
        "utf16 ''p1''" ex_call "\<lambda>s. InvalidDate" ex_serverError]
    by simp
qed

end
